theory Spec2Isabelle
  imports Complex_Main "HOL-Library.AList"
begin

section \<open>message\_ix.util: make\_df and expand\_dims\<close>

text \<open>
  A shallow embedding of \<^verbatim>\<open>src/message_ix/util/__init__.py\<close>: the table builder
  \<^verbatim>\<open>make_df\<close>, its deprecated form \<^verbatim>\<open>_deprecated_make_df\<close> and the dimension expander
  \<^verbatim>\<open>expand_dims\<close>. Python exceptions are values of the type \<open>error\<close>, a call that may
  raise returns \<open>error + 'a\<close>, and everything a call does beyond returning (warnings,
  objects it allocates or mutates, calls on the scenario) is threaded through a record
  \<open>world\<close>.
\<close>

subsection \<open>Values\<close>

text \<open>
  A cell is one Python scalar as \<^verbatim>\<open>pandas.api.types.is_scalar\<close> knows it: \<^verbatim>\<open>None\<close>, a
  float (\<open>CNaN\<close> is the float \<^verbatim>\<open>nan\<close>, \<open>CFloat r\<close> a finite float named by the number it
  denotes), an \<^verbatim>\<open>int\<close> or a \<^verbatim>\<open>str\<close>. The functions below only move cells around and ask
  whether one is missing; they compute nothing with them, and the dtype inference of
  pandas (which may store \<^verbatim>\<open>None\<close> as \<^verbatim>\<open>nan\<close> in a numeric column) is left out: both are
  missing values for \<^verbatim>\<open>isna\<close>.
\<close>

datatype cell = CNone | CNaN | CInt int | CFloat real | CStr string

text \<open>A keyword argument is a scalar or a sequence of per-row values (a list, a
  \<^verbatim>\<open>pandas.Series\<close>).\<close>

datatype pyvalue = Scalar cell | Sequence "cell list"

fun is_scalar :: "pyvalue \<Rightarrow> bool" where
  "is_scalar (Scalar c) = True"
| "is_scalar (Sequence xs) = False"

fun isna :: "cell \<Rightarrow> bool" where
  "isna CNone = True"
| "isna CNaN = True"
| "isna (CInt i) = False"
| "isna (CFloat r) = False"
| "isna (CStr s) = False"

text \<open>
  A Python \<^verbatim>\<open>dict\<close> with string keys, and the keyword arguments \<^verbatim>\<open>**data\<close> of a call, are
  association lists in insertion order. \<open>AList.update\<close> is the item assignment
  \<^verbatim>\<open>d[k] = v\<close>: it replaces the value of a key that is present, in place, and appends a
  new key at the end.
\<close>

type_synonym pydict = "(string \<times> pyvalue) list"

subsection \<open>Exceptions\<close>

datatype error =
    ValueError_not_parameter string
      \<comment> \<open>line 115: \<^verbatim>\<open>ValueError(f"{repr(name)} is not a MESSAGE or MACRO parameter")\<close>\<close>
  | ValueError_not_par string string
      \<comment> \<open>line 118: \<^verbatim>\<open>ValueError(f"{repr(name)} is {info['ix_type']}, not par")\<close>\<close>
  | KeyError string
      \<comment> \<open>a subscript \<^verbatim>\<open>d[key]\<close> on a dict without the key (lines 121 and 231)\<close>
  | ValueError_all_scalar_no_index
      \<comment> \<open>pandas: "If using all scalar values, you must pass an index"\<close>
  | ValueError_length_mismatch
      \<comment> \<open>pandas: "All arrays must be of the same length"\<close>
  | TypeError_multiple_values string
      \<comment> \<open>a call that receives the same keyword twice\<close>
  | AssertionError string
      \<comment> \<open>line 226\<close>

subsection \<open>Data frames\<close>

text \<open>
  A data frame: its row labels and its columns in order, each with one cell per row.
\<close>

record DataFrame =
  index :: "nat list"
  series :: "(string \<times> cell list) list"

definition columns :: "DataFrame \<Rightarrow> string list" where
  "columns df = map fst (series df)"

definition column :: "DataFrame \<Rightarrow> string \<Rightarrow> cell list option" where
  "column df c = map_of (series df) c"

definition nrows :: "DataFrame \<Rightarrow> nat" where
  "nrows df = length (index df)"

text \<open>\<^verbatim>\<open>df.isna().any(axis=None)\<close>: some cell of the frame is missing.\<close>

definition isna_any :: "DataFrame \<Rightarrow> bool" where
  "isna_any df = list_ex (\<lambda>(c, xs). list_ex isna xs) (series df)"

fun seq_lengths :: "pydict \<Rightarrow> nat list" where
  "seq_lengths [] = []"
| "seq_lengths ((c, Scalar x) # d) = seq_lengths d"
| "seq_lengths ((c, Sequence xs) # d) = length xs # seq_lengths d"

fun broadcast :: "nat \<Rightarrow> pyvalue \<Rightarrow> cell list" where
  "broadcast n (Scalar x) = replicate n x"
| "broadcast n (Sequence xs) = xs"

text \<open>
  Modelled from the spec: the table constructor \<^verbatim>\<open>pandas.DataFrame(data=..., index=...)\<close>
  is a library call, not code under src/. It is modelled as section 4.1 of the
  specification describes the broadcasting rule (and as pandas documents it): the columns
  are the keys of \<open>data\<close> in order; with an index, every sequence must have the length of
  the index; without one, every sequence must have the length of the first sequence, and
  a dict of scalars only is refused; a scalar is repeated in every row.
\<close>

definition pd_DataFrame :: "pydict \<Rightarrow> nat list option \<Rightarrow> error + DataFrame" where
  "pd_DataFrame data ix =
     (case ix of
        Some labels \<Rightarrow>
          if list_all (\<lambda>l. l = length labels) (seq_lengths data)
          then Inr \<lparr>index = labels,
                    series = map (\<lambda>(c, v). (c, broadcast (length labels) v)) data\<rparr>
          else Inl ValueError_length_mismatch
      | None \<Rightarrow>
          (case seq_lengths data of
             [] \<Rightarrow>
               if data = [] then Inr \<lparr>index = [], series = []\<rparr>
               else Inl ValueError_all_scalar_no_index
           | l # ls \<Rightarrow>
               if list_all (\<lambda>l'. l' = l) ls
               then Inr \<lparr>index = [0..<l],
                         series = map (\<lambda>(c, v). (c, broadcast l v)) data\<rparr>
               else Inl ValueError_length_mismatch))"

subsection \<open>The schema registries\<close>

text \<open>
  \<^verbatim>\<open>MESSAGE_ITEMS\<close> and \<^verbatim>\<open>MACRO_ITEMS\<close> are imported from modules that are not under src/;
  they are parameters of every function below. An entry is a dict with the key
  \<^verbatim>\<open>ix_type\<close> and, optionally, \<^verbatim>\<open>idx_sets\<close> and \<^verbatim>\<open>idx_names\<close>.
\<close>

record item =
  ix_type :: string
  idx_sets :: "string list option"
  idx_names :: "string list option"

type_synonym registry = "string \<rightharpoonup> item"

text \<open>\<^verbatim>\<open>ChainMap(a, b)[key]\<close>: the first mapping that has the key answers.\<close>

definition ChainMap_get :: "('k \<rightharpoonup> 'v) \<Rightarrow> ('k \<rightharpoonup> 'v) \<Rightarrow> 'k \<Rightarrow> 'v option" where
  "ChainMap_get a b key = (case a key of Some v \<Rightarrow> Some v | None \<Rightarrow> b key)"

text \<open>\<^verbatim>\<open>ChainMap(data, defaultdict(lambda: None))[column]\<close> (line 127).\<close>

definition data_get :: "pydict \<Rightarrow> string \<Rightarrow> pyvalue" where
  "data_get data col = (case map_of data col of Some v \<Rightarrow> v | None \<Rightarrow> Scalar CNone)"

subsection \<open>The world outside the call\<close>

text \<open>
  Objects a caller can hold a reference to and pass as the first argument of the
  deprecated form: a mapping, a \<^verbatim>\<open>pandas.Series\<close> (labels and scalars) or a data frame.
\<close>

type_synonym addr = nat

datatype obj =
    Dict pydict
  | Series "(string \<times> cell) list"
  | Frame DataFrame

datatype warning = DeprecationWarning string

text \<open>
  Modelled from the spec: the scenario (\<^verbatim>\<open>message_ix.core.Scenario\<close>) and
  \<^verbatim>\<open>MESSAGE.initialize_items\<close> are not under src/. They are the store of section 6 of the
  specification, of which two things are kept: what \<^verbatim>\<open>scenario.par(name)\<close> returns (the
  field \<open>par_data\<close> of the world), and the calls \<^verbatim>\<open>expand_dims\<close> makes on the store, in
  the order it makes them (the field \<open>calls\<close>). A call is recorded and returns; what the
  store does with it, committing or rolling back a transaction included, is the store's
  business. \<open>Transact_enter\<close> and \<open>Transact_exit\<close> are the entry and exit of the
  \<^verbatim>\<open>with scenario.transact(...)\<close> block, with the parameter name of its description; the
  exit carries whether the block ended normally.
\<close>

datatype call =
    Par string
  | Transact_enter string
  | Remove_par string
  | Initialize_items string item
  | Add_par string DataFrame
  | Transact_exit bool

text \<open>
  The world: the objects allocated so far (every address below \<open>fresh\<close>), the warnings
  issued so far (\<^verbatim>\<open>warnings.warn\<close> appends one), and the scenario.
\<close>

record world =
  objs :: "addr \<Rightarrow> obj"
  fresh :: addr
  warnings :: "warning list"
  par_data :: "string \<Rightarrow> DataFrame"
  calls :: "call list"

definition alloc :: "obj \<Rightarrow> world \<Rightarrow> addr \<times> world" where
  "alloc ob w = (fresh w, w\<lparr>objs := (objs w)(fresh w := ob), fresh := Suc (fresh w)\<rparr>)"

definition warn :: "warning \<Rightarrow> world \<Rightarrow> world" where
  "warn x w = w\<lparr>warnings := warnings w @ [x]\<rparr>"

definition issue :: "call \<Rightarrow> world \<Rightarrow> world" where
  "issue c w = w\<lparr>calls := calls w @ [c]\<rparr>"

subsection \<open>make\_df\<close>

text \<open>
  The first argument of \<^verbatim>\<open>make_df\<close>: a parameter name, or a reference to a mapping, a
  series or a data frame (the \<^verbatim>\<open>isinstance\<close> test of line 108).
\<close>

datatype name_arg = Name string | Ref addr

text \<open>
  \<^verbatim>\<open>Series.to_dict()\<close> gives one scalar per label, \<^verbatim>\<open>DataFrame.to_dict()\<close> one entry per
  column; a column's per-row dict is kept as the sequence of its values. On a mapping
  line 192 is skipped.
\<close>

fun to_dict :: "obj \<Rightarrow> pydict" where
  "to_dict (Dict d) = d"
| "to_dict (Series s) = map (\<lambda>(l, x). (l, Scalar x)) s"
| "to_dict (Frame df) = map (\<lambda>(c, xs). (c, Sequence xs)) (series df)"

text \<open>\<^verbatim>\<open>base.update(**kwargs)\<close>: one item assignment per keyword, in order.\<close>

definition dict_update :: "pydict \<Rightarrow> pydict \<Rightarrow> pydict" where
  "dict_update base kwargs = fold (\<lambda>(k, v). AList.update k v) kwargs base"

text \<open>
  \<^verbatim>\<open>_deprecated_make_df\<close> (lines 184-194). \<^verbatim>\<open>copy.deepcopy\<close> allocates a new object with
  the contents of \<open>base\<close>; \<^verbatim>\<open>to_dict\<close> allocates a dict when the copy is not a mapping;
  \<^verbatim>\<open>update\<close> mutates the dict the local variable then refers to.
\<close>

definition deprecated_make_df :: "addr \<Rightarrow> pydict \<Rightarrow> world \<Rightarrow> (error + DataFrame) \<times> world" where
  "deprecated_make_df base kwargs w =
     (let w1 = warn (DeprecationWarning
                 (''make_df() with a mapping or pandas object. Use make_df(), '' @
                  ''DataFrame.from_dict(), and/or DataFrame.assign().'')) w;
          (b, w2) = alloc (objs w1 base) w1;
          (b', w3) = (case objs w2 b of
                        Dict d \<Rightarrow> (b, w2)
                      | ob \<Rightarrow> alloc (Dict (to_dict ob)) w2);
          w4 = w3\<lparr>objs := (objs w3)(b' := Dict (dict_update (to_dict (objs w3 b')) kwargs))\<rparr>
      in (pd_DataFrame (to_dict (objs w4 b')) None, w4))"

text \<open>
  The loop of lines 135-139, with the flag \<open>all_scalar\<close> and the dict \<^verbatim>\<open>args["data"]\<close> as
  its state.
\<close>

fun make_df_loop :: "pydict \<Rightarrow> string list \<Rightarrow> bool \<times> pydict \<Rightarrow> bool \<times> pydict" where
  "make_df_loop data [] acc = acc"
| "make_df_loop data (col # cols) (all_scalar, args_data) =
     make_df_loop data cols
       (all_scalar \<and> is_scalar (data_get data col),
        AList.update col (data_get data col) args_data)"

text \<open>
  \<^verbatim>\<open>make_df\<close> (lines 108-146). \<open>MESSAGE_ITEMS\<close> and \<open>MACRO_ITEMS\<close> are the two
  registries. In \<^verbatim>\<open>info.get("idx_names", info["idx_sets"])\<close> Python evaluates the default
  first, so an entry without \<^verbatim>\<open>idx_sets\<close> raises \<^verbatim>\<open>KeyError\<close> whether or not it has
  \<^verbatim>\<open>idx_names\<close>. The index \<^verbatim>\<open>[0]\<close> is passed only when every value is a scalar.
\<close>

definition make_df ::
  "registry \<Rightarrow> registry \<Rightarrow> name_arg \<Rightarrow> pydict \<Rightarrow> world \<Rightarrow> (error + DataFrame) \<times> world" where
  "make_df MESSAGE_ITEMS MACRO_ITEMS name data w =
     (case name of
        Ref base \<Rightarrow> deprecated_make_df base data w
      | Name n \<Rightarrow>
          (case ChainMap_get MESSAGE_ITEMS MACRO_ITEMS n of
             None \<Rightarrow> (Inl (ValueError_not_parameter n), w)
           | Some info \<Rightarrow>
               if ix_type info \<noteq> ''par'' then (Inl (ValueError_not_par n (ix_type info)), w)
               else
                 (case idx_sets info of
                    None \<Rightarrow> (Inl (KeyError ''idx_sets''), w)
                  | Some sets \<Rightarrow>
                      let names = (case idx_names info of Some ns \<Rightarrow> ns | None \<Rightarrow> sets);
                          cols = names @ [''value'', ''unit''];
                          (all_scalar, args_data) = make_df_loop data cols (True, []);
                          ix = (if all_scalar then Some [0] else None)
                      in (pd_DataFrame args_data ix, w))))"

subsection \<open>expand\_dims\<close>

text \<open>
  The keyword arguments of the call \<^verbatim>\<open>make_df(name, **scenario.par(name), **data)\<close> (line
  225): the columns of the stored frame, each a series, then \<open>data\<close>. Python raises
  \<^verbatim>\<open>TypeError\<close> at the first keyword of \<open>data\<close> that the frame already gave, and when a
  keyword is called \<^verbatim>\<open>name\<close>, which the positional argument has bound.
\<close>

definition call_kwargs :: "DataFrame \<Rightarrow> pydict \<Rightarrow> error + pydict" where
  "call_kwargs stored data =
     (let first = to_dict (Frame stored) in
      case find (\<lambda>k. k \<in> set (map fst first)) (map fst data) of
        Some k \<Rightarrow> Inl (TypeError_multiple_values k)
      | None \<Rightarrow>
          if ''name'' \<in> set (map fst (first @ data))
          then Inl (TypeError_multiple_values ''name'')
          else Inr (first @ data))"

text \<open>
  \<^verbatim>\<open>expand_dims\<close> (lines 225-234). The scenario is the world's \<open>par_data\<close> (what
  \<^verbatim>\<open>scenario.par\<close> returns) and \<open>calls\<close>. \<^verbatim>\<open>MESSAGE_ITEMS[name]\<close> on line 231 is evaluated
  after \<^verbatim>\<open>remove_par\<close> has returned and before \<^verbatim>\<open>initialize_items\<close> is called; an
  exception inside the \<^verbatim>\<open>with\<close> block leaves it through the transaction's exit.
\<close>

definition expand_dims ::
  "registry \<Rightarrow> registry \<Rightarrow> string \<Rightarrow> pydict \<Rightarrow> world \<Rightarrow> (error + unit) \<times> world" where
  "expand_dims MESSAGE_ITEMS MACRO_ITEMS name data w =
     (let w1 = issue (Par name) w in
      case call_kwargs (par_data w1 name) data of
        Inl e \<Rightarrow> (Inl e, w1)
      | Inr kwargs \<Rightarrow>
          (case make_df MESSAGE_ITEMS MACRO_ITEMS (Name name) kwargs w1 of
             (Inl e, w2) \<Rightarrow> (Inl e, w2)
           | (Inr new_data, w2) \<Rightarrow>
               if isna_any new_data
               then (Inl (AssertionError ''Expanded data are incomplete''), w2)
               else
                 let w3 = issue (Transact_enter name) w2;
                     w4 = issue (Remove_par name) w3
                 in (case MESSAGE_ITEMS name of
                       None \<Rightarrow> (Inl (KeyError name), issue (Transact_exit False) w4)
                     | Some info \<Rightarrow>
                         let w5 = issue (Initialize_items name info) w4;
                             w6 = issue (Add_par name new_data) w5
                         in (Inr (), issue (Transact_exit True) w6))))"

subsection \<open>A small registry and world\<close>

text \<open>
  Concrete inputs on which the theorems below are instantiated: the parameter
  \<^verbatim>\<open>demand\<close> of the docstring of \<^verbatim>\<open>make_df\<close>, a set, a parameter that only the second
  registry knows, and a world that holds one mapping (the \<^verbatim>\<open>base\<close> of the docstring) and
  stored data for both parameters; the stored \<^verbatim>\<open>demand\<close> has no column \<^verbatim>\<open>time\<close>.
\<close>

definition demo_MESSAGE_ITEMS :: registry where
  "demo_MESSAGE_ITEMS =
     [''commodity'' \<mapsto> \<lparr>ix_type = ''set'', idx_sets = None, idx_names = None\<rparr>,
      ''demand'' \<mapsto> \<lparr>ix_type = ''par'',
         idx_sets = Some [''node'', ''commodity'', ''level'', ''year'', ''time''],
         idx_names = None\<rparr>]"

definition demo_MACRO_ITEMS :: registry where
  "demo_MACRO_ITEMS =
     [''MERtoPPP'' \<mapsto> \<lparr>ix_type = ''par'', idx_sets = Some [''node'', ''year''],
         idx_names = None\<rparr>]"

definition demo_world :: world where
  "demo_world =
     \<lparr>objs = (\<lambda>a. Dict [(''year'', Sequence [CInt 2020, CInt 2021, CInt 2022])]),
      fresh = 1,
      warnings = [],
      par_data = (\<lambda>n.
        if n = ''demand'' then
          \<lparr>index = [0, 1],
           series = [(''node'', [CStr ''Westeros'', CStr ''Middle-earth'']),
                     (''commodity'', [CStr ''light'', CStr ''light'']),
                     (''level'', [CStr ''useful'', CStr ''useful'']),
                     (''year'', [CInt 680, CInt 700]),
                     (''value'', [CInt 50, CInt 80]),
                     (''unit'', [CStr ''GWa'', CStr ''GWa''])]\<rparr>
        else if n = ''MERtoPPP'' then
          \<lparr>index = [0],
           series = [(''node'', [CStr ''Westeros'']),
                     (''year'', [CInt 680]),
                     (''value'', [CFloat 1]),
                     (''unit'', [CStr ''-''])]\<rparr>
        else \<lparr>index = [], series = []\<rparr>),
      calls = []\<rparr>"

section \<open>Properties\<close>

subsection \<open>The loop and the constructor\<close>

lemma loop_fst:
  "fst (make_df_loop data cols (b, acc)) = (b \<and> list_all (\<lambda>c. is_scalar (data_get data c)) cols)"
  by (induction cols arbitrary: b acc) auto

lemma loop_map_of:
  "map_of (snd (make_df_loop data cols (b, acc))) c =
     (if c \<in> set cols then Some (data_get data c) else map_of acc c)"
  by (induction cols arbitrary: b acc) (auto simp: update_conv')

lemma loop_keys:
  "distinct (map fst acc @ cols) \<Longrightarrow>
   map fst (snd (make_df_loop data cols (b, acc))) = map fst acc @ cols"
proof (induction cols arbitrary: b acc)
  case Nil
  then show ?case by simp
next
  case (Cons col cols)
  let ?acc = "AList.update col (data_get data col) acc"
  from Cons.prems have fresh: "col \<notin> set (map fst acc)" by auto
  then have keys: "map fst ?acc = map fst acc @ [col]"
    by (simp add: update_keys)
  with Cons.prems have "distinct (map fst ?acc @ cols)" by auto
  from Cons.IH [OF this] keys show ?case by simp
qed

lemma set_update_subset: "set (AList.update k v al) \<subseteq> insert (k, v) (set al)"
  by (induction al) auto

lemma loop_members:
  "(c, v) \<in> set (snd (make_df_loop data cols (b, acc))) \<Longrightarrow>
   (c, v) \<in> set acc \<or> (c \<in> set cols \<and> v = data_get data c)"
proof (induction cols arbitrary: b acc)
  case Nil
  then show ?case by simp
next
  case (Cons col cols)
  from Cons.prems have
    "(c, v) \<in> set (snd (make_df_loop data cols
        (b \<and> is_scalar (data_get data col), AList.update col (data_get data col) acc)))"
    by simp
  from Cons.IH [OF this] show ?case
    using set_update_subset [of col "data_get data col" acc] by auto
qed

lemma seq_lengths_iff:
  "l \<in> set (seq_lengths d) \<longleftrightarrow> (\<exists>c xs. (c, Sequence xs) \<in> set d \<and> length xs = l)"
  by (induction d rule: seq_lengths.induct) auto

lemma loop_cong:
  "\<forall>c \<in> set cols. map_of data' c = map_of data c \<Longrightarrow>
   make_df_loop data' cols acc = make_df_loop data cols acc"
proof (induction cols arbitrary: acc)
  case Nil
  then show ?case by simp
next
  case (Cons col cols)
  obtain b al where acc: "acc = (b, al)" by (cases acc)
  from Cons.prems have "data_get data' col = data_get data col"
    by (simp add: data_get_def)
  with Cons acc show ?case by simp
qed

lemma loop_member_of:
  "c \<in> set cols \<Longrightarrow> (c, data_get data c) \<in> set (snd (make_df_loop data cols (b, acc)))"
  by (rule map_of_SomeD) (simp add: loop_map_of)

lemma pd_DataFrame_series:
  "pd_DataFrame d ix = Inr df \<Longrightarrow>
   series df = map (\<lambda>(c, v). (c, broadcast (length (index df)) v)) d"
  by (auto simp: pd_DataFrame_def split: option.splits list.splits if_splits)

lemma pd_DataFrame_scalars:
  "seq_lengths d = [] \<Longrightarrow>
   pd_DataFrame d (Some [0]) =
     Inr \<lparr>index = [0], series = map (\<lambda>(c, v). (c, broadcast 1 v)) d\<rparr>"
  by (simp add: pd_DataFrame_def)

lemma pd_DataFrame_sequences:
  assumes "seq_lengths d \<noteq> []" and "\<forall>l \<in> set (seq_lengths d). l = L"
  shows "pd_DataFrame d None =
     Inr \<lparr>index = [0..<L], series = map (\<lambda>(c, v). (c, broadcast L v)) d\<rparr>"
proof -
  from assms(1) obtain l ls where ls: "seq_lengths d = l # ls"
    by (cases "seq_lengths d") auto
  with assms(2) have "l = L" and "list_all (\<lambda>l'. l' = l) ls"
    by (auto simp: list_all_iff)
  with ls show ?thesis by (simp add: pd_DataFrame_def)
qed

lemma pd_DataFrame_mismatch:
  assumes "l1 \<in> set (seq_lengths d)" and "l2 \<in> set (seq_lengths d)" and "l1 \<noteq> l2"
  shows "pd_DataFrame d None = Inl ValueError_length_mismatch"
proof -
  from assms(1) obtain l ls where ls: "seq_lengths d = l # ls"
    by (cases "seq_lengths d") auto
  have "\<not> list_all (\<lambda>l'. l' = l) ls"
  proof
    assume "list_all (\<lambda>l'. l' = l) ls"
    then have all: "\<And>x. x \<in> set (seq_lengths d) \<Longrightarrow> x = l"
      using ls by (auto simp: list_all_iff)
    from all [OF assms(1)] all [OF assms(2)] assms(3) show False by simp
  qed
  with ls show ?thesis by (simp add: pd_DataFrame_def)
qed

lemma make_df_resolved:
  assumes "ChainMap_get M A n = Some info" and "ix_type info = ''par''"
    and "idx_sets info = Some sets"
    and "cols = (case idx_names info of Some ns \<Rightarrow> ns | None \<Rightarrow> sets) @ [''value'', ''unit'']"
  shows "make_df M A (Name n) data w =
     (pd_DataFrame (snd (make_df_loop data cols (True, [])))
        (if fst (make_df_loop data cols (True, [])) then Some [0] else None), w)"
  using assms by (simp add: make_df_def Let_def split: prod.splits)

lemma loop_keys_set:
  "fst ` set (snd (make_df_loop data cols (b, acc))) = fst ` set acc \<union> set cols"
  by (induction cols arbitrary: b acc) (auto simp: dom_update)

lemma loop_keys_distinct:
  "distinct (map fst acc) \<Longrightarrow> distinct (map fst (snd (make_df_loop data cols (b, acc))))"
  by (induction cols arbitrary: b acc) (auto simp: distinct_update)

subsection \<open>The table builder\<close>

text \<open>
  C1. When \<^verbatim>\<open>make_df\<close> is called with a name that resolves to a schema of kind
  \<^verbatim>\<open>par\<close> and returns a table, the table's columns are exactly the schema's dimension
  names (\<^verbatim>\<open>idx_names\<close>, or \<^verbatim>\<open>idx_sets\<close> when there are none) in schema order, then
  \<^verbatim>\<open>value\<close>, then \<^verbatim>\<open>unit\<close>; a column the caller did not supply is present and holds
  \<^verbatim>\<open>None\<close> in every row; and keywords outside the column set are ignored: two calls whose
  data agree on the column set return the same. The order is stated for a schema whose
  column names are distinct, as the names of a table's columns are; in any case the
  table has each of these columns once and no other.
\<close>

theorem make_df_columns:
  assumes "ChainMap_get M A n = Some info" and "ix_type info = ''par''"
    and "idx_sets info = Some sets"
    and "cols = (case idx_names info of Some ns \<Rightarrow> ns | None \<Rightarrow> sets) @ [''value'', ''unit'']"
    and "make_df M A (Name n) data w = (Inr df, w')"
  shows "set (columns df) = set cols \<and> distinct (columns df)
       \<and> (distinct cols \<longrightarrow> columns df = cols)
       \<and> (\<forall>c \<in> set cols. map_of data c = None \<longrightarrow>
             column df c = Some (replicate (nrows df) CNone))
       \<and> (\<forall>data'. (\<forall>c \<in> set cols. map_of data' c = map_of data c) \<longrightarrow>
             make_df M A (Name n) data' w = make_df M A (Name n) data w)"
proof -
  let ?args = "snd (make_df_loop data cols (True, []))"
  let ?ix = "if fst (make_df_loop data cols (True, [])) then Some [0] else None"
  note resolved = make_df_resolved [OF assms(1-4)]
  from assms(5) have pd: "pd_DataFrame ?args ?ix = Inr df"
    by (simp add: resolved)
  have ser: "series df = map (\<lambda>(c, v). (c, broadcast (nrows df) v)) ?args"
    using pd_DataFrame_series [OF pd] by (simp add: nrows_def)
  have keys: "columns df = map fst ?args"
    by (simp add: columns_def ser case_prod_unfold comp_def)
  have 0: "set (columns df) = set cols \<and> distinct (columns df)"
    using loop_keys_set [of data cols True "[]"] loop_keys_distinct [of "[]" data cols True]
    by (simp add: keys)
  have 1: "distinct cols \<longrightarrow> columns df = cols"
    using loop_keys [of "[]" cols data True] by (simp add: keys)
  have col: "column df c = Some (broadcast (nrows df) (data_get data c))"
    if "c \<in> set cols" for c
    using that by (simp add: column_def ser map_of_map loop_map_of)
  have 2: "\<forall>c \<in> set cols. map_of data c = None \<longrightarrow>
             column df c = Some (replicate (nrows df) CNone)"
    by (simp add: col data_get_def)
  have 3: "\<forall>data'. (\<forall>c \<in> set cols. map_of data' c = map_of data c) \<longrightarrow>
             make_df M A (Name n) data' w = make_df M A (Name n) data w"
  proof (intro allI impI)
    fix data'
    assume agree: "\<forall>c \<in> set cols. map_of data' c = map_of data c"
    have "make_df_loop data' cols (True, []) = make_df_loop data cols (True, [])"
      by (rule loop_cong [OF agree])
    then show "make_df M A (Name n) data' w = make_df M A (Name n) data w"
      by (simp only: make_df_resolved [OF assms(1-4)])
  qed
  from 0 1 2 3 show ?thesis by blast
qed

theorem make_df_columns_witness:
  "columns
     \<lparr>index = [0, 1],
      series = [(''node'', [CStr ''foo'', CStr ''bar'']),
                (''commodity'', [CStr ''baz'', CStr ''baz'']),
                (''level'', [CNone, CNone]),
                (''year'', [CNone, CNone]),
                (''time'', [CNone, CNone]),
                (''value'', [CFloat 1.2, CFloat 3.4]),
                (''unit'', [CNone, CNone])]\<rparr> =
     [''node'', ''commodity'', ''level'', ''year'', ''time'', ''value'', ''unit'']
   \<and> column
     \<lparr>index = [0, 1],
      series = [(''node'', [CStr ''foo'', CStr ''bar'']),
                (''commodity'', [CStr ''baz'', CStr ''baz'']),
                (''level'', [CNone, CNone]),
                (''year'', [CNone, CNone]),
                (''time'', [CNone, CNone]),
                (''value'', [CFloat 1.2, CFloat 3.4]),
                (''unit'', [CNone, CNone])]\<rparr> ''level'' = Some [CNone, CNone]
   \<and> make_df demo_MESSAGE_ITEMS demo_MACRO_ITEMS (Name ''demand'')
        [(''node'', Sequence [CStr ''foo'', CStr ''bar'']),
         (''commodity'', Scalar (CStr ''baz'')),
         (''value'', Sequence [CFloat 1.2, CFloat 3.4])] demo_world =
      make_df demo_MESSAGE_ITEMS demo_MACRO_ITEMS (Name ''demand'')
        [(''node'', Sequence [CStr ''foo'', CStr ''bar'']),
         (''commodity'', Scalar (CStr ''baz'')),
         (''value'', Sequence [CFloat 1.2, CFloat 3.4]),
         (''technology'', Sequence [CStr ''coal''])] demo_world"
proof -
  let ?info = "\<lparr>ix_type = ''par'',
         idx_sets = Some [''node'', ''commodity'', ''level'', ''year'', ''time''],
         idx_names = None\<rparr>"
  let ?cols = "[''node'', ''commodity'', ''level'', ''year'', ''time'', ''value'', ''unit'']"
  let ?data = "[(''node'', Sequence [CStr ''foo'', CStr ''bar'']),
         (''commodity'', Scalar (CStr ''baz'')),
         (''value'', Sequence [CFloat 1.2, CFloat 3.4]),
         (''technology'', Sequence [CStr ''coal''])]"
  let ?data' = "[(''node'', Sequence [CStr ''foo'', CStr ''bar'']),
         (''commodity'', Scalar (CStr ''baz'')),
         (''value'', Sequence [CFloat 1.2, CFloat 3.4])]"
  let ?df = "\<lparr>index = [0, 1],
      series = [(''node'', [CStr ''foo'', CStr ''bar'']),
                (''commodity'', [CStr ''baz'', CStr ''baz'']),
                (''level'', [CNone, CNone]),
                (''year'', [CNone, CNone]),
                (''time'', [CNone, CNone]),
                (''value'', [CFloat 1.2, CFloat 3.4]),
                (''unit'', [CNone, CNone])]\<rparr>"
  have h1: "ChainMap_get demo_MESSAGE_ITEMS demo_MACRO_ITEMS ''demand'' = Some ?info"
    by (simp add: ChainMap_get_def demo_MESSAGE_ITEMS_def)
  have h2: "ix_type ?info = ''par''" by simp
  have h3: "idx_sets ?info = Some [''node'', ''commodity'', ''level'', ''year'', ''time'']"
    by simp
  have h4: "?cols = (case idx_names ?info of Some ns \<Rightarrow> ns
      | None \<Rightarrow> [''node'', ''commodity'', ''level'', ''year'', ''time'']) @ [''value'', ''unit'']"
    by simp
  have h5: "distinct ?cols" by simp
  have h6: "make_df demo_MESSAGE_ITEMS demo_MACRO_ITEMS (Name ''demand'') ?data demo_world =
      (Inr ?df, demo_world)"
    by (simp add: make_df_def ChainMap_get_def demo_MESSAGE_ITEMS_def data_get_def
        pd_DataFrame_def)
  note inst = conjunct2 [OF conjunct2 [OF make_df_columns [OF h1 h2 h3 h4 h6]]]
  have a: "columns ?df = ?cols"
    by (rule mp [OF conjunct1 [OF inst] h5])
  have "map_of ?data ''level'' = None \<longrightarrow> column ?df ''level'' = Some (replicate (nrows ?df) CNone)"
    by (rule bspec [OF conjunct1 [OF conjunct2 [OF inst]]]) simp
  then have b: "column ?df ''level'' = Some [CNone, CNone]"
    by (simp add: nrows_def)
  have "(\<forall>c \<in> set ?cols. map_of ?data' c = map_of ?data c) \<longrightarrow>
      make_df demo_MESSAGE_ITEMS demo_MACRO_ITEMS (Name ''demand'') ?data' demo_world =
      make_df demo_MESSAGE_ITEMS demo_MACRO_ITEMS (Name ''demand'') ?data demo_world"
    by (rule spec [OF conjunct2 [OF conjunct2 [OF inst]]])
  moreover have "\<forall>c \<in> set ?cols. map_of ?data' c = map_of ?data c"
    by simp
  ultimately have c: "make_df demo_MESSAGE_ITEMS demo_MACRO_ITEMS (Name ''demand'') ?data' demo_world =
      make_df demo_MESSAGE_ITEMS demo_MACRO_ITEMS (Name ''demand'') ?data demo_world"
    by (rule mp)
  from a b c show ?thesis by (intro conjI)
qed

lemma loop_column:
  "c \<in> set cols \<Longrightarrow>
   map_of (map (\<lambda>(c, v). (c, broadcast k v)) (snd (make_df_loop data cols (b, acc)))) c =
     Some (broadcast k (data_get data c))"
  by (simp add: map_of_map loop_map_of)

lemma loop_seq_lengths:
  "l \<in> set (seq_lengths (snd (make_df_loop data cols (b, [])))) \<longleftrightarrow>
     (\<exists>c \<in> set cols. \<exists>xs. data_get data c = Sequence xs \<and> length xs = l)"
proof
  assume "l \<in> set (seq_lengths (snd (make_df_loop data cols (b, []))))"
  then obtain c xs where
    mem: "(c, Sequence xs) \<in> set (snd (make_df_loop data cols (b, [])))" and l: "length xs = l"
    by (auto simp: seq_lengths_iff)
  from loop_members [OF mem] have "c \<in> set cols" and "Sequence xs = data_get data c"
    by simp_all
  with l show "\<exists>c \<in> set cols. \<exists>xs. data_get data c = Sequence xs \<and> length xs = l"
    by metis
next
  assume "\<exists>c \<in> set cols. \<exists>xs. data_get data c = Sequence xs \<and> length xs = l"
  then obtain c xs where c: "c \<in> set cols" and xs: "data_get data c = Sequence xs"
    and l: "length xs = l" by blast
  from loop_member_of [OF c, of data b "[]"] xs
  have "(c, Sequence xs) \<in> set (snd (make_df_loop data cols (b, [])))" by simp
  with l show "l \<in> set (seq_lengths (snd (make_df_loop data cols (b, []))))"
    by (auto simp: seq_lengths_iff)
qed

text \<open>
  C2. For a name that resolves to a schema of kind \<^verbatim>\<open>par\<close>, with \<open>data_get data c\<close> the
  value make\_df passes on for column \<open>c\<close> (the caller's, or \<^verbatim>\<open>None\<close>): when every column's
  value is a scalar the call returns a table of exactly one row, in which each column
  holds that scalar; when some column's value is a sequence and all the sequences have
  the length \<open>L\<close>, the call returns a table of exactly \<open>L\<close> rows, in which a sequence is
  the column as it stands and a scalar (the placeholder too) is repeated \<open>L\<close> times.
\<close>

theorem make_df_broadcast:
  assumes "ChainMap_get M A n = Some info" and "ix_type info = ''par''"
    and "idx_sets info = Some sets"
    and "cols = (case idx_names info of Some ns \<Rightarrow> ns | None \<Rightarrow> sets) @ [''value'', ''unit'']"
  shows "((\<forall>c \<in> set cols. is_scalar (data_get data c)) \<longrightarrow>
            (\<exists>df. make_df M A (Name n) data w = (Inr df, w) \<and> nrows df = 1 \<and>
                  (\<forall>c \<in> set cols. \<forall>x. data_get data c = Scalar x \<longrightarrow>
                       column df c = Some [x])))
       \<and> ((\<exists>c \<in> set cols. \<not> is_scalar (data_get data c)) \<and>
           (\<forall>c \<in> set cols. \<forall>xs. data_get data c = Sequence xs \<longrightarrow> length xs = L) \<longrightarrow>
            (\<exists>df. make_df M A (Name n) data w = (Inr df, w) \<and> nrows df = L \<and>
                  (\<forall>c \<in> set cols.
                       (\<forall>xs. data_get data c = Sequence xs \<longrightarrow> column df c = Some xs) \<and>
                       (\<forall>x. data_get data c = Scalar x \<longrightarrow>
                            column df c = Some (replicate L x)))))"
proof (intro conjI impI)
  let ?loop = "make_df_loop data cols (True, [])"
  note resolved = make_df_resolved [OF assms, of data w]
  assume scalars: "\<forall>c \<in> set cols. is_scalar (data_get data c)"
  then have flag: "fst ?loop" by (simp add: loop_fst list_all_iff)
  have "seq_lengths (snd ?loop) = []"
  proof (rule ccontr)
    assume "seq_lengths (snd ?loop) \<noteq> []"
    then obtain l where "l \<in> set (seq_lengths (snd ?loop))"
      by (cases "seq_lengths (snd ?loop)") auto
    then obtain c xs where "c \<in> set cols" and "data_get data c = Sequence xs"
      by (auto simp: loop_seq_lengths)
    with scalars show False by auto
  qed
  from pd_DataFrame_scalars [OF this] flag
  have made: "make_df M A (Name n) data w =
      (Inr \<lparr>index = [0], series = map (\<lambda>(c, v). (c, broadcast 1 v)) (snd ?loop)\<rparr>, w)"
    by (simp add: resolved)
  show "\<exists>df. make_df M A (Name n) data w = (Inr df, w) \<and> nrows df = 1 \<and>
      (\<forall>c \<in> set cols. \<forall>x. data_get data c = Scalar x \<longrightarrow> column df c = Some [x])"
    by (rule exI, rule conjI, rule made) (simp add: nrows_def column_def loop_column)
next
  let ?loop = "make_df_loop data cols (True, [])"
  note resolved = make_df_resolved [OF assms, of data w]
  assume seqs: "(\<exists>c \<in> set cols. \<not> is_scalar (data_get data c)) \<and>
      (\<forall>c \<in> set cols. \<forall>xs. data_get data c = Sequence xs \<longrightarrow> length xs = L)"
  then obtain c where c: "c \<in> set cols" and "\<not> is_scalar (data_get data c)" by blast
  then obtain xs where xs: "data_get data c = Sequence xs"
    by (cases "data_get data c") auto
  from c \<open>\<not> is_scalar (data_get data c)\<close> have flag: "\<not> fst ?loop"
    by (auto simp: loop_fst list_all_iff)
  from c xs have "length xs \<in> set (seq_lengths (snd ?loop))"
    by (auto simp: loop_seq_lengths)
  then have nonempty: "seq_lengths (snd ?loop) \<noteq> []" by auto
  from seqs have same: "\<forall>l \<in> set (seq_lengths (snd ?loop)). l = L"
    by (auto simp: loop_seq_lengths)
  from pd_DataFrame_sequences [OF nonempty same] flag
  have made: "make_df M A (Name n) data w =
      (Inr \<lparr>index = [0..<L], series = map (\<lambda>(c, v). (c, broadcast L v)) (snd ?loop)\<rparr>, w)"
    by (simp add: resolved)
  have len: "\<And>c xs. c \<in> set cols \<Longrightarrow> data_get data c = Sequence xs \<Longrightarrow> length xs = L"
    using seqs by blast
  show "\<exists>df. make_df M A (Name n) data w = (Inr df, w) \<and> nrows df = L \<and>
      (\<forall>c \<in> set cols.
          (\<forall>xs. data_get data c = Sequence xs \<longrightarrow> column df c = Some xs) \<and>
          (\<forall>x. data_get data c = Scalar x \<longrightarrow> column df c = Some (replicate L x)))"
    by (rule exI, rule conjI, rule made) (simp add: nrows_def column_def loop_column)
qed

theorem make_df_broadcast_witness:
  "(\<exists>df. make_df demo_MESSAGE_ITEMS demo_MACRO_ITEMS (Name ''demand'')
          [(''node'', Scalar (CStr ''foo''))] demo_world = (Inr df, demo_world)
       \<and> nrows df = 1
       \<and> column df ''node'' = Some [CStr ''foo'']
       \<and> column df ''level'' = Some [CNone])
   \<and> (\<exists>df. make_df demo_MESSAGE_ITEMS demo_MACRO_ITEMS (Name ''demand'')
          [(''node'', Sequence [CStr ''Westeros'', CStr ''Middle-earth'']),
           (''year'', Sequence [CInt 680, CInt 700]),
           (''value'', Sequence [CInt 50, CInt 80]),
           (''commodity'', Scalar (CStr ''light''))] demo_world = (Inr df, demo_world)
       \<and> nrows df = 2
       \<and> column df ''year'' = Some [CInt 680, CInt 700]
       \<and> column df ''commodity'' = Some [CStr ''light'', CStr ''light'']
       \<and> column df ''unit'' = Some [CNone, CNone])"
proof -
  let ?info = "\<lparr>ix_type = ''par'',
         idx_sets = Some [''node'', ''commodity'', ''level'', ''year'', ''time''],
         idx_names = None\<rparr>"
  let ?cols = "[''node'', ''commodity'', ''level'', ''year'', ''time'', ''value'', ''unit'']"
  let ?one = "[(''node'', Scalar (CStr ''foo''))]"
  let ?two = "[(''node'', Sequence [CStr ''Westeros'', CStr ''Middle-earth'']),
           (''year'', Sequence [CInt 680, CInt 700]),
           (''value'', Sequence [CInt 50, CInt 80]),
           (''commodity'', Scalar (CStr ''light''))]"
  have h1: "ChainMap_get demo_MESSAGE_ITEMS demo_MACRO_ITEMS ''demand'' = Some ?info"
    by (simp add: ChainMap_get_def demo_MESSAGE_ITEMS_def)
  have h2: "ix_type ?info = ''par''" by simp
  have h3: "idx_sets ?info = Some [''node'', ''commodity'', ''level'', ''year'', ''time'']"
    by simp
  have h4: "?cols = (case idx_names ?info of Some ns \<Rightarrow> ns
      | None \<Rightarrow> [''node'', ''commodity'', ''level'', ''year'', ''time'']) @ [''value'', ''unit'']"
    by simp
  have scalars: "\<forall>c \<in> set ?cols. is_scalar (data_get ?one c)"
    by (simp add: data_get_def)
  from conjunct1 [OF make_df_broadcast [OF h1 h2 h3 h4, of ?one demo_world 1]] scalars
  obtain df where made: "make_df demo_MESSAGE_ITEMS demo_MACRO_ITEMS (Name ''demand'') ?one
        demo_world = (Inr df, demo_world)"
    and rows: "nrows df = 1"
    and cells: "\<forall>c \<in> set ?cols. \<forall>x. data_get ?one c = Scalar x \<longrightarrow> column df c = Some [x]"
    by blast
  have "data_get ?one ''node'' = Scalar (CStr ''foo'') \<longrightarrow> column df ''node'' = Some [CStr ''foo'']"
    by (rule spec [OF bspec [OF cells]]) simp
  then have node: "column df ''node'' = Some [CStr ''foo'']"
    by (simp add: data_get_def)
  have "data_get ?one ''level'' = Scalar CNone \<longrightarrow> column df ''level'' = Some [CNone]"
    by (rule spec [OF bspec [OF cells]]) simp
  then have level: "column df ''level'' = Some [CNone]"
    by (simp add: data_get_def)
  have seqs: "(\<exists>c \<in> set ?cols. \<not> is_scalar (data_get ?two c)) \<and>
      (\<forall>c \<in> set ?cols. \<forall>xs. data_get ?two c = Sequence xs \<longrightarrow> length xs = 2)"
    by (auto simp: data_get_def)
  from conjunct2 [OF make_df_broadcast [OF h1 h2 h3 h4, of ?two demo_world 2]] seqs
  obtain df2 where made2: "make_df demo_MESSAGE_ITEMS demo_MACRO_ITEMS (Name ''demand'') ?two
        demo_world = (Inr df2, demo_world)"
    and rows2: "nrows df2 = 2"
    and cells2: "\<forall>c \<in> set ?cols.
        (\<forall>xs. data_get ?two c = Sequence xs \<longrightarrow> column df2 c = Some xs) \<and>
        (\<forall>x. data_get ?two c = Scalar x \<longrightarrow> column df2 c = Some (replicate 2 x))"
    by blast
  have "(\<forall>xs. data_get ?two ''year'' = Sequence xs \<longrightarrow> column df2 ''year'' = Some xs) \<and>
        (\<forall>x. data_get ?two ''year'' = Scalar x \<longrightarrow> column df2 ''year'' = Some (replicate 2 x))"
    by (rule bspec [OF cells2]) simp
  then have year: "column df2 ''year'' = Some [CInt 680, CInt 700]"
    by (simp add: data_get_def)
  have "(\<forall>xs. data_get ?two ''commodity'' = Sequence xs \<longrightarrow> column df2 ''commodity'' = Some xs) \<and>
        (\<forall>x. data_get ?two ''commodity'' = Scalar x \<longrightarrow>
           column df2 ''commodity'' = Some (replicate 2 x))"
    by (rule bspec [OF cells2]) simp
  then have commodity: "column df2 ''commodity'' = Some [CStr ''light'', CStr ''light'']"
    by (simp add: data_get_def numeral_2_eq_2)
  have "(\<forall>xs. data_get ?two ''unit'' = Sequence xs \<longrightarrow> column df2 ''unit'' = Some xs) \<and>
        (\<forall>x. data_get ?two ''unit'' = Scalar x \<longrightarrow> column df2 ''unit'' = Some (replicate 2 x))"
    by (rule bspec [OF cells2]) simp
  then have unit: "column df2 ''unit'' = Some [CNone, CNone]"
    by (simp add: data_get_def numeral_2_eq_2)
  from made rows node level made2 rows2 year commodity unit show ?thesis
    by blast
qed

text \<open>
  C7 (as amended). For a name that resolves to a schema of kind \<^verbatim>\<open>par\<close>: when the caller
  supplies sequences of unequal lengths for two columns of the parameter, the call fails
  with the constructor's length-mismatch error, and what \<^verbatim>\<open>make_df\<close> returns is what the
  constructor returned on the dict the loop built, called without an index: \<^verbatim>\<open>make_df\<close>
  checks no length itself and wraps nothing.
\<close>

theorem make_df_length_mismatch:
  assumes "ChainMap_get M A n = Some info" and "ix_type info = ''par''"
    and "idx_sets info = Some sets"
    and "cols = (case idx_names info of Some ns \<Rightarrow> ns | None \<Rightarrow> sets) @ [''value'', ''unit'']"
    and "c1 \<in> set cols" and "map_of data c1 = Some (Sequence xs)"
    and "c2 \<in> set cols" and "map_of data c2 = Some (Sequence ys)"
    and "length xs \<noteq> length ys"
  shows "make_df M A (Name n) data w = (Inl ValueError_length_mismatch, w)
       \<and> fst (make_df M A (Name n) data w) =
           pd_DataFrame (snd (make_df_loop data cols (True, []))) None"
proof -
  let ?loop = "make_df_loop data cols (True, [])"
  note resolved = make_df_resolved [OF assms(1-4), of data w]
  from assms(6,8) have get: "data_get data c1 = Sequence xs" "data_get data c2 = Sequence ys"
    by (simp_all add: data_get_def)
  then have "\<not> is_scalar (data_get data c1)" by simp
  with assms(5) have flag: "\<not> fst ?loop"
    by (auto simp: loop_fst list_all_iff)
  from assms(5,7) get have "length xs \<in> set (seq_lengths (snd ?loop))"
    and "length ys \<in> set (seq_lengths (snd ?loop))"
    by (auto simp: loop_seq_lengths)
  from pd_DataFrame_mismatch [OF this assms(9)]
  have "pd_DataFrame (snd ?loop) None = Inl ValueError_length_mismatch" .
  with flag show ?thesis by (simp add: resolved)
qed

theorem make_df_length_mismatch_witness:
  "make_df demo_MESSAGE_ITEMS demo_MACRO_ITEMS (Name ''demand'')
     [(''node'', Sequence [CStr ''foo'', CStr ''bar'']),
      (''value'', Sequence [CInt 1])] demo_world =
   (Inl ValueError_length_mismatch, demo_world)"
proof -
  let ?info = "\<lparr>ix_type = ''par'',
         idx_sets = Some [''node'', ''commodity'', ''level'', ''year'', ''time''],
         idx_names = None\<rparr>"
  let ?cols = "[''node'', ''commodity'', ''level'', ''year'', ''time'', ''value'', ''unit'']"
  let ?data = "[(''node'', Sequence [CStr ''foo'', CStr ''bar'']),
      (''value'', Sequence [CInt 1])]"
  have h1: "ChainMap_get demo_MESSAGE_ITEMS demo_MACRO_ITEMS ''demand'' = Some ?info"
    by (simp add: ChainMap_get_def demo_MESSAGE_ITEMS_def)
  have h2: "ix_type ?info = ''par''" by simp
  have h3: "idx_sets ?info = Some [''node'', ''commodity'', ''level'', ''year'', ''time'']"
    by simp
  have h4: "?cols = (case idx_names ?info of Some ns \<Rightarrow> ns
      | None \<Rightarrow> [''node'', ''commodity'', ''level'', ''year'', ''time'']) @ [''value'', ''unit'']"
    by simp
  have h5: "''node'' \<in> set ?cols" by simp
  have h6: "map_of ?data ''node'' = Some (Sequence [CStr ''foo'', CStr ''bar''])" by simp
  have h7: "''value'' \<in> set ?cols" by simp
  have h8: "map_of ?data ''value'' = Some (Sequence [CInt 1])" by simp
  have h9: "length [CStr ''foo'', CStr ''bar''] \<noteq> length [CInt 1]" by simp
  show ?thesis
    by (rule conjunct1 [OF make_df_length_mismatch [OF h1 h2 h3 h4 h5 h6 h7 h8 h9]])
qed

text \<open>
  C7 as stated speaks of any two sequences the caller supplies. A sequence under a
  keyword that is not a column of the parameter is never looked at (the loop runs over
  the columns only), so its length does not matter: here \<^verbatim>\<open>node\<close> has two values,
  \<^verbatim>\<open>technology\<close> one, and the call returns a table of two rows.
\<close>

theorem make_df_ignored_lengths_counterexample:
  "make_df demo_MESSAGE_ITEMS demo_MACRO_ITEMS (Name ''demand'')
     [(''node'', Sequence [CStr ''foo'', CStr ''bar'']),
      (''technology'', Sequence [CStr ''coal''])] demo_world =
   (Inr \<lparr>index = [0, 1],
         series = [(''node'', [CStr ''foo'', CStr ''bar'']),
                   (''commodity'', [CNone, CNone]),
                   (''level'', [CNone, CNone]),
                   (''year'', [CNone, CNone]),
                   (''time'', [CNone, CNone]),
                   (''value'', [CNone, CNone]),
                   (''unit'', [CNone, CNone])]\<rparr>, demo_world)"
  by (simp add: make_df_def ChainMap_get_def demo_MESSAGE_ITEMS_def data_get_def
      pd_DataFrame_def)

text \<open>
  C5. A string name is looked up in \<^verbatim>\<open>ChainMap(MESSAGE_ITEMS, MACRO_ITEMS)\<close>. When the
  first registry has the name, its entry decides and the second registry is not consulted:
  the call returns the same with any other second registry, and the same as with that
  entry alone. When the first registry has not the name and the second has it, the
  second's entry decides in the same way. A name in neither registry raises the "not a
  MESSAGE or MACRO parameter" error. A name whose entry (found in either way) has another
  \<^verbatim>\<open>ix_type\<close> than \<^verbatim>\<open>par\<close> raises the "not par" error; in both cases nothing has been
  done before, and the world is returned as it was. A name whose entry is a \<^verbatim>\<open>par\<close> with
  \<^verbatim>\<open>idx_sets\<close> goes on to the constructor with that entry's columns.
\<close>

theorem make_df_lookup:
  "(MESSAGE_ITEMS n = Some info \<longrightarrow>
      make_df MESSAGE_ITEMS MACRO_ITEMS (Name n) data w =
      make_df MESSAGE_ITEMS MACRO_ITEMS' (Name n) data w
      \<and> make_df MESSAGE_ITEMS MACRO_ITEMS (Name n) data w =
        make_df [n \<mapsto> info] Map.empty (Name n) data w)
   \<and> (MESSAGE_ITEMS n = None \<longrightarrow>
      make_df MESSAGE_ITEMS MACRO_ITEMS (Name n) data w =
      make_df Map.empty MACRO_ITEMS (Name n) data w)
   \<and> (MESSAGE_ITEMS n = None \<and> MACRO_ITEMS n = Some info \<longrightarrow>
      make_df MESSAGE_ITEMS MACRO_ITEMS (Name n) data w =
      make_df [n \<mapsto> info] Map.empty (Name n) data w)
   \<and> (MESSAGE_ITEMS n = None \<and> MACRO_ITEMS n = None \<longrightarrow>
      make_df MESSAGE_ITEMS MACRO_ITEMS (Name n) data w =
      (Inl (ValueError_not_parameter n), w))
   \<and> ((MESSAGE_ITEMS n = Some info \<or> MESSAGE_ITEMS n = None \<and> MACRO_ITEMS n = Some info) \<and>
       ix_type info \<noteq> ''par'' \<longrightarrow>
      make_df MESSAGE_ITEMS MACRO_ITEMS (Name n) data w =
      (Inl (ValueError_not_par n (ix_type info)), w))
   \<and> ((MESSAGE_ITEMS n = Some info \<or> MESSAGE_ITEMS n = None \<and> MACRO_ITEMS n = Some info) \<and>
       ix_type info = ''par'' \<and> idx_sets info = Some sets \<longrightarrow>
      make_df MESSAGE_ITEMS MACRO_ITEMS (Name n) data w =
      (pd_DataFrame
         (snd (make_df_loop data
            ((case idx_names info of Some ns \<Rightarrow> ns | None \<Rightarrow> sets) @ [''value'', ''unit''])
            (True, [])))
         (if fst (make_df_loop data
            ((case idx_names info of Some ns \<Rightarrow> ns | None \<Rightarrow> sets) @ [''value'', ''unit''])
            (True, []))
          then Some [0] else None), w))"
proof -
  have resolve: "ChainMap_get MESSAGE_ITEMS MACRO_ITEMS n = Some info"
    if "MESSAGE_ITEMS n = Some info \<or> MESSAGE_ITEMS n = None \<and> MACRO_ITEMS n = Some info"
    using that by (auto simp: ChainMap_get_def)
  have single: "ChainMap_get [n \<mapsto> info] Map.empty n = Some info"
    by (simp add: ChainMap_get_def)
  have same: "make_df MESSAGE_ITEMS MACRO_ITEMS (Name n) data w =
      make_df [n \<mapsto> info] Map.empty (Name n) data w"
    if "MESSAGE_ITEMS n = Some info \<or> MESSAGE_ITEMS n = None \<and> MACRO_ITEMS n = Some info"
    using resolve [OF that] single by (simp add: make_df_def)
  have first: "make_df MESSAGE_ITEMS MACRO_ITEMS (Name n) data w =
      make_df MESSAGE_ITEMS MACRO_ITEMS' (Name n) data w" if "MESSAGE_ITEMS n = Some info"
    using that by (simp add: make_df_def ChainMap_get_def)
  have second: "make_df MESSAGE_ITEMS MACRO_ITEMS (Name n) data w =
      make_df Map.empty MACRO_ITEMS (Name n) data w" if "MESSAGE_ITEMS n = None"
    using that by (simp add: make_df_def ChainMap_get_def)
  have neither: "make_df MESSAGE_ITEMS MACRO_ITEMS (Name n) data w =
      (Inl (ValueError_not_parameter n), w)"
    if "MESSAGE_ITEMS n = None \<and> MACRO_ITEMS n = None"
    using that by (simp add: make_df_def ChainMap_get_def)
  have kind: "make_df MESSAGE_ITEMS MACRO_ITEMS (Name n) data w =
      (Inl (ValueError_not_par n (ix_type info)), w)"
    if "MESSAGE_ITEMS n = Some info \<or> MESSAGE_ITEMS n = None \<and> MACRO_ITEMS n = Some info"
      and "ix_type info \<noteq> ''par''"
    using resolve [OF that(1)] that(2) by (simp add: make_df_def)
  have built: "make_df MESSAGE_ITEMS MACRO_ITEMS (Name n) data w =
      (pd_DataFrame
         (snd (make_df_loop data
            ((case idx_names info of Some ns \<Rightarrow> ns | None \<Rightarrow> sets) @ [''value'', ''unit''])
            (True, [])))
         (if fst (make_df_loop data
            ((case idx_names info of Some ns \<Rightarrow> ns | None \<Rightarrow> sets) @ [''value'', ''unit''])
            (True, []))
          then Some [0] else None), w)"
    if "MESSAGE_ITEMS n = Some info \<or> MESSAGE_ITEMS n = None \<and> MACRO_ITEMS n = Some info"
      and "ix_type info = ''par''" and "idx_sets info = Some sets"
    by (rule make_df_resolved [OF resolve [OF that(1)] that(2) that(3) refl])
  from same first second neither kind built show ?thesis by blast
qed

theorem make_df_lookup_witness:
  "make_df demo_MESSAGE_ITEMS
      (demo_MACRO_ITEMS(''demand'' \<mapsto> \<lparr>ix_type = ''var'', idx_sets = None, idx_names = None\<rparr>))
      (Name ''demand'') [] demo_world =
    (Inr \<lparr>index = [0],
          series = [(''node'', [CNone]), (''commodity'', [CNone]), (''level'', [CNone]),
                    (''year'', [CNone]), (''time'', [CNone]), (''value'', [CNone]),
                    (''unit'', [CNone])]\<rparr>, demo_world)
   \<and> make_df demo_MESSAGE_ITEMS demo_MACRO_ITEMS (Name ''MERtoPPP'') [] demo_world =
     (Inr \<lparr>index = [0],
           series = [(''node'', [CNone]), (''year'', [CNone]), (''value'', [CNone]),
                     (''unit'', [CNone])]\<rparr>, demo_world)
   \<and> make_df demo_MESSAGE_ITEMS demo_MACRO_ITEMS (Name ''supply'') [] demo_world =
     (Inl (ValueError_not_parameter ''supply''), demo_world)
   \<and> make_df demo_MESSAGE_ITEMS demo_MACRO_ITEMS (Name ''commodity'') [] demo_world =
     (Inl (ValueError_not_par ''commodity'' ''set''), demo_world)"
proof -
  let ?par = "\<lparr>ix_type = ''par'',
         idx_sets = Some [''node'', ''commodity'', ''level'', ''year'', ''time''],
         idx_names = None\<rparr>"
  let ?mer = "\<lparr>ix_type = ''par'', idx_sets = Some [''node'', ''year''], idx_names = None\<rparr>"
  let ?set = "\<lparr>ix_type = ''set'', idx_sets = None, idx_names = None\<rparr>"
  let ?var = "demo_MACRO_ITEMS(''demand'' \<mapsto>
      \<lparr>ix_type = ''var'', idx_sets = None, idx_names = None\<rparr>)"
  have p1: "(demo_MESSAGE_ITEMS ''demand'' = Some ?par \<or>
        demo_MESSAGE_ITEMS ''demand'' = None \<and> ?var ''demand'' = Some ?par) \<and>
      ix_type ?par = ''par'' \<and>
      idx_sets ?par = Some [''node'', ''commodity'', ''level'', ''year'', ''time'']"
    by (simp add: demo_MESSAGE_ITEMS_def)
  have p2: "(demo_MESSAGE_ITEMS ''MERtoPPP'' = Some ?mer \<or>
        demo_MESSAGE_ITEMS ''MERtoPPP'' = None \<and> demo_MACRO_ITEMS ''MERtoPPP'' = Some ?mer) \<and>
      ix_type ?mer = ''par'' \<and> idx_sets ?mer = Some [''node'', ''year'']"
    by (simp add: demo_MESSAGE_ITEMS_def demo_MACRO_ITEMS_def)
  have p3: "demo_MESSAGE_ITEMS ''supply'' = None \<and> demo_MACRO_ITEMS ''supply'' = None"
    by (simp add: demo_MESSAGE_ITEMS_def demo_MACRO_ITEMS_def)
  have p4: "(demo_MESSAGE_ITEMS ''commodity'' = Some ?set \<or>
        demo_MESSAGE_ITEMS ''commodity'' = None \<and> demo_MACRO_ITEMS ''commodity'' = Some ?set) \<and>
      ix_type ?set \<noteq> ''par''"
    by (simp add: demo_MESSAGE_ITEMS_def)
  have "make_df demo_MESSAGE_ITEMS ?var (Name ''demand'') [] demo_world =
      (pd_DataFrame
         (snd (make_df_loop []
            ((case idx_names ?par of Some ns \<Rightarrow> ns
              | None \<Rightarrow> [''node'', ''commodity'', ''level'', ''year'', ''time'']) @
             [''value'', ''unit'']) (True, [])))
         (if fst (make_df_loop []
            ((case idx_names ?par of Some ns \<Rightarrow> ns
              | None \<Rightarrow> [''node'', ''commodity'', ''level'', ''year'', ''time'']) @
             [''value'', ''unit'']) (True, []))
          then Some [0] else None), demo_world)"
    using make_df_lookup [where MESSAGE_ITEMS = demo_MESSAGE_ITEMS and n = "''demand''"
        and info = ?par and MACRO_ITEMS = ?var and data = "[]" and w = demo_world
        and sets = "[''node'', ''commodity'', ''level'', ''year'', ''time'']"] p1
    by blast
  then have a: "make_df demo_MESSAGE_ITEMS ?var (Name ''demand'') [] demo_world =
      (Inr \<lparr>index = [0],
          series = [(''node'', [CNone]), (''commodity'', [CNone]), (''level'', [CNone]),
                    (''year'', [CNone]), (''time'', [CNone]), (''value'', [CNone]),
                    (''unit'', [CNone])]\<rparr>, demo_world)"
    by (simp add: data_get_def pd_DataFrame_def)
  have "make_df demo_MESSAGE_ITEMS demo_MACRO_ITEMS (Name ''MERtoPPP'') [] demo_world =
      (pd_DataFrame
         (snd (make_df_loop []
            ((case idx_names ?mer of Some ns \<Rightarrow> ns | None \<Rightarrow> [''node'', ''year'']) @
             [''value'', ''unit'']) (True, [])))
         (if fst (make_df_loop []
            ((case idx_names ?mer of Some ns \<Rightarrow> ns | None \<Rightarrow> [''node'', ''year'']) @
             [''value'', ''unit'']) (True, []))
          then Some [0] else None), demo_world)"
    using make_df_lookup [where MESSAGE_ITEMS = demo_MESSAGE_ITEMS and n = "''MERtoPPP''"
        and info = ?mer and MACRO_ITEMS = demo_MACRO_ITEMS and data = "[]" and w = demo_world
        and sets = "[''node'', ''year'']"] p2
    by blast
  then have b: "make_df demo_MESSAGE_ITEMS demo_MACRO_ITEMS (Name ''MERtoPPP'') [] demo_world =
      (Inr \<lparr>index = [0],
           series = [(''node'', [CNone]), (''year'', [CNone]), (''value'', [CNone]),
                     (''unit'', [CNone])]\<rparr>, demo_world)"
    by (simp add: data_get_def pd_DataFrame_def)
  have c: "make_df demo_MESSAGE_ITEMS demo_MACRO_ITEMS (Name ''supply'') [] demo_world =
      (Inl (ValueError_not_parameter ''supply''), demo_world)"
    using make_df_lookup [where MESSAGE_ITEMS = demo_MESSAGE_ITEMS and n = "''supply''"
        and MACRO_ITEMS = demo_MACRO_ITEMS and data = "[]" and w = demo_world] p3
    by blast
  have "make_df demo_MESSAGE_ITEMS demo_MACRO_ITEMS (Name ''commodity'') [] demo_world =
      (Inl (ValueError_not_par ''commodity'' (ix_type ?set)), demo_world)"
    using make_df_lookup [where MESSAGE_ITEMS = demo_MESSAGE_ITEMS and n = "''commodity''"
        and info = ?set and MACRO_ITEMS = demo_MACRO_ITEMS and data = "[]" and w = demo_world] p4
    by blast
  then have d: "make_df demo_MESSAGE_ITEMS demo_MACRO_ITEMS (Name ''commodity'') [] demo_world =
      (Inl (ValueError_not_par ''commodity'' ''set''), demo_world)"
    by simp
  from a b c d show ?thesis by (intro conjI)
qed

text \<open>
  C8. Called with a string name, \<^verbatim>\<open>make_df\<close> has no effect on the world (no warning, no
  object allocated or changed, no call on the scenario), and its result depends on the
  registries, the name and the data only: in any two worlds the call returns the same.
\<close>

theorem make_df_pure:
  "snd (make_df MESSAGE_ITEMS MACRO_ITEMS (Name n) data w) = w
   \<and> fst (make_df MESSAGE_ITEMS MACRO_ITEMS (Name n) data w') =
     fst (make_df MESSAGE_ITEMS MACRO_ITEMS (Name n) data w)"
  by (simp add: make_df_def Let_def split: option.splits prod.splits)

theorem make_df_pure_witness:
  "snd (make_df demo_MESSAGE_ITEMS demo_MACRO_ITEMS (Name ''demand'')
          [(''node'', Scalar (CStr ''foo''))] demo_world) = demo_world
   \<and> fst (make_df demo_MESSAGE_ITEMS demo_MACRO_ITEMS (Name ''demand'')
          [(''node'', Scalar (CStr ''foo''))] (warn (DeprecationWarning ''earlier'') demo_world)) =
     fst (make_df demo_MESSAGE_ITEMS demo_MACRO_ITEMS (Name ''demand'')
          [(''node'', Scalar (CStr ''foo''))] demo_world)"
  by (rule make_df_pure)

subsection \<open>The deprecated form\<close>





subsection \<open>The dimension expander\<close>

lemma make_df_Name_world:
  "snd (make_df M A (Name n) data w) = w"
  by (simp add: make_df_def Let_def split: option.splits prod.splits)

lemma make_df_Name_result:
  "fst (make_df M A (Name n) data w') = fst (make_df M A (Name n) data w)"
  by (simp add: make_df_def Let_def split: option.splits prod.splits)

lemma make_df_Name_eq:
  "make_df M A (Name n) data w' = (fst (make_df M A (Name n) data w), w')"
  using make_df_Name_world [of M A n data w'] make_df_Name_result [of M A n data w' w]
  by (simp add: prod_eq_iff)

lemma find_Some_member: "find P xs = Some x \<Longrightarrow> x \<in> set xs \<and> P x"
  by (induction xs) (auto split: if_splits)

lemma expand_dims_stages:
  "expand_dims M A name data w =
     (case call_kwargs (par_data w name) data of
        Inl e \<Rightarrow> (Inl e, w\<lparr>calls := calls w @ [Par name]\<rparr>)
      | Inr kwargs \<Rightarrow>
          (case fst (make_df M A (Name name) kwargs w) of
             Inl e \<Rightarrow> (Inl e, w\<lparr>calls := calls w @ [Par name]\<rparr>)
           | Inr new_data \<Rightarrow>
               if isna_any new_data
               then (Inl (AssertionError ''Expanded data are incomplete''),
                     w\<lparr>calls := calls w @ [Par name]\<rparr>)
               else
                 (case M name of
                    None \<Rightarrow>
                      (Inl (KeyError name),
                       w\<lparr>calls := calls w @ [Par name, Transact_enter name, Remove_par name,
                                              Transact_exit False]\<rparr>)
                  | Some info \<Rightarrow>
                      (Inr (),
                       w\<lparr>calls := calls w @ [Par name, Transact_enter name, Remove_par name,
                                              Initialize_items name info,
                                              Add_par name new_data,
                                              Transact_exit True]\<rparr>))))"
  by (simp add: expand_dims_def issue_def Let_def
      make_df_Name_eq [of M A name _ "w\<lparr>calls := calls w @ [Par name]\<rparr>" w]
      split: sum.splits option.splits)

text \<open>
  C3. When the table \<^verbatim>\<open>make_df\<close> returns for the stored columns and the caller's new
  values has a missing cell, \<^verbatim>\<open>expand_dims\<close> raises the assertion error of line 226, and
  the only call it has made on the scenario is the read \<^verbatim>\<open>scenario.par(name)\<close>: the
  transaction was not entered, and nothing was removed, initialized or added.
\<close>

theorem expand_dims_incomplete:
  assumes "call_kwargs (par_data w name) data = Inr kwargs"
    and "fst (make_df MESSAGE_ITEMS MACRO_ITEMS (Name name) kwargs w) = Inr new_data"
    and "isna_any new_data"
  shows "expand_dims MESSAGE_ITEMS MACRO_ITEMS name data w =
     (Inl (AssertionError ''Expanded data are incomplete''),
      w\<lparr>calls := calls w @ [Par name]\<rparr>)"
  using assms by (simp add: expand_dims_stages)

theorem expand_dims_incomplete_witness:
  "expand_dims demo_MESSAGE_ITEMS demo_MACRO_ITEMS ''demand''
     [(''technology'', Scalar (CStr ''coal''))] demo_world =
   (Inl (AssertionError ''Expanded data are incomplete''),
    demo_world\<lparr>calls := [Par ''demand'']\<rparr>)"
proof -
  let ?kwargs = "[(''node'', Sequence [CStr ''Westeros'', CStr ''Middle-earth'']),
                  (''commodity'', Sequence [CStr ''light'', CStr ''light'']),
                  (''level'', Sequence [CStr ''useful'', CStr ''useful'']),
                  (''year'', Sequence [CInt 680, CInt 700]),
                  (''value'', Sequence [CInt 50, CInt 80]),
                  (''unit'', Sequence [CStr ''GWa'', CStr ''GWa'']),
                  (''technology'', Scalar (CStr ''coal''))]"
  let ?new_data = "\<lparr>index = [0, 1],
           series = [(''node'', [CStr ''Westeros'', CStr ''Middle-earth'']),
                     (''commodity'', [CStr ''light'', CStr ''light'']),
                     (''level'', [CStr ''useful'', CStr ''useful'']),
                     (''year'', [CInt 680, CInt 700]),
                     (''time'', [CNone, CNone]),
                     (''value'', [CInt 50, CInt 80]),
                     (''unit'', [CStr ''GWa'', CStr ''GWa''])]\<rparr>"
  have h1: "call_kwargs (par_data demo_world ''demand'')
      [(''technology'', Scalar (CStr ''coal''))] = Inr ?kwargs"
    by (simp add: call_kwargs_def demo_world_def)
  have h2: "fst (make_df demo_MESSAGE_ITEMS demo_MACRO_ITEMS (Name ''demand'') ?kwargs
      demo_world) = Inr ?new_data"
    by (simp add: make_df_def ChainMap_get_def demo_MESSAGE_ITEMS_def data_get_def
        pd_DataFrame_def)
  have h3: "isna_any ?new_data"
    by (simp add: isna_any_def)
  from expand_dims_incomplete [OF h1 h2 h3] show ?thesis
    by (simp add: demo_world_def)
qed

text \<open>
  C4 (as amended). When the expanded table has no missing cell and the name is in
  \<^verbatim>\<open>MESSAGE_ITEMS\<close>, \<^verbatim>\<open>expand_dims\<close> returns normally, and after the read it has made
  exactly these calls, in this order: it enters the transaction, removes the parameter,
  initializes it with the entry of \<^verbatim>\<open>MESSAGE_ITEMS\<close>, adds the expanded table, and leaves
  the transaction normally. The three mutations lie between the entry and the exit of
  one transaction.
\<close>

theorem expand_dims_writes:
  assumes "call_kwargs (par_data w name) data = Inr kwargs"
    and "fst (make_df MESSAGE_ITEMS MACRO_ITEMS (Name name) kwargs w) = Inr new_data"
    and "\<not> isna_any new_data"
    and "MESSAGE_ITEMS name = Some info"
  shows "expand_dims MESSAGE_ITEMS MACRO_ITEMS name data w =
     (Inr (),
      w\<lparr>calls := calls w @ [Par name, Transact_enter name, Remove_par name,
                             Initialize_items name info, Add_par name new_data,
                             Transact_exit True]\<rparr>)"
  using assms by (simp add: expand_dims_stages)

theorem expand_dims_writes_witness:
  "expand_dims demo_MESSAGE_ITEMS demo_MACRO_ITEMS ''demand''
     [(''time'', Scalar (CStr ''year''))] demo_world =
   (Inr (),
    demo_world\<lparr>calls :=
      [Par ''demand'', Transact_enter ''demand'', Remove_par ''demand'',
       Initialize_items ''demand''
         \<lparr>ix_type = ''par'',
          idx_sets = Some [''node'', ''commodity'', ''level'', ''year'', ''time''],
          idx_names = None\<rparr>,
       Add_par ''demand''
         \<lparr>index = [0, 1],
          series = [(''node'', [CStr ''Westeros'', CStr ''Middle-earth'']),
                    (''commodity'', [CStr ''light'', CStr ''light'']),
                    (''level'', [CStr ''useful'', CStr ''useful'']),
                    (''year'', [CInt 680, CInt 700]),
                    (''time'', [CStr ''year'', CStr ''year'']),
                    (''value'', [CInt 50, CInt 80]),
                    (''unit'', [CStr ''GWa'', CStr ''GWa''])]\<rparr>,
       Transact_exit True]\<rparr>)"
proof -
  let ?kwargs = "[(''node'', Sequence [CStr ''Westeros'', CStr ''Middle-earth'']),
                  (''commodity'', Sequence [CStr ''light'', CStr ''light'']),
                  (''level'', Sequence [CStr ''useful'', CStr ''useful'']),
                  (''year'', Sequence [CInt 680, CInt 700]),
                  (''value'', Sequence [CInt 50, CInt 80]),
                  (''unit'', Sequence [CStr ''GWa'', CStr ''GWa'']),
                  (''time'', Scalar (CStr ''year''))]"
  let ?new_data = "\<lparr>index = [0, 1],
           series = [(''node'', [CStr ''Westeros'', CStr ''Middle-earth'']),
                     (''commodity'', [CStr ''light'', CStr ''light'']),
                     (''level'', [CStr ''useful'', CStr ''useful'']),
                     (''year'', [CInt 680, CInt 700]),
                     (''time'', [CStr ''year'', CStr ''year'']),
                     (''value'', [CInt 50, CInt 80]),
                     (''unit'', [CStr ''GWa'', CStr ''GWa''])]\<rparr>"
  let ?info = "\<lparr>ix_type = ''par'',
          idx_sets = Some [''node'', ''commodity'', ''level'', ''year'', ''time''],
          idx_names = None\<rparr>"
  have h1: "call_kwargs (par_data demo_world ''demand'')
      [(''time'', Scalar (CStr ''year''))] = Inr ?kwargs"
    by (simp add: call_kwargs_def demo_world_def)
  have h2: "fst (make_df demo_MESSAGE_ITEMS demo_MACRO_ITEMS (Name ''demand'') ?kwargs
      demo_world) = Inr ?new_data"
    by (simp add: make_df_def ChainMap_get_def demo_MESSAGE_ITEMS_def data_get_def
        pd_DataFrame_def)
  have h3: "\<not> isna_any ?new_data"
    by (simp add: isna_any_def)
  have h4: "demo_MESSAGE_ITEMS ''demand'' = Some ?info"
    by (simp add: demo_MESSAGE_ITEMS_def)
  from expand_dims_writes [OF h1 h2 h3 h4] show ?thesis
    by (simp add: demo_world_def)
qed

text \<open>
  C4 as stated promises the three mutations for every call that passes validation. A
  name that only \<^verbatim>\<open>MACRO_ITEMS\<close> has passes it, and then only \<^verbatim>\<open>remove_par\<close> is issued.
\<close>

theorem expand_dims_writes_counterexample:
  "fst (make_df demo_MESSAGE_ITEMS demo_MACRO_ITEMS (Name ''MERtoPPP'')
          [(''node'', Sequence [CStr ''Westeros'']),
           (''year'', Sequence [CInt 680]),
           (''value'', Sequence [CFloat 1]),
           (''unit'', Sequence [CStr ''-''])] demo_world) =
     Inr \<lparr>index = [0],
          series = [(''node'', [CStr ''Westeros'']),
                    (''year'', [CInt 680]),
                    (''value'', [CFloat 1]),
                    (''unit'', [CStr ''-''])]\<rparr>
   \<and> \<not> isna_any \<lparr>index = [0],
          series = [(''node'', [CStr ''Westeros'']),
                    (''year'', [CInt 680]),
                    (''value'', [CFloat 1]),
                    (''unit'', [CStr ''-''])]\<rparr>
   \<and> expand_dims demo_MESSAGE_ITEMS demo_MACRO_ITEMS ''MERtoPPP'' [] demo_world =
     (Inl (KeyError ''MERtoPPP''),
      demo_world\<lparr>calls :=
        [Par ''MERtoPPP'', Transact_enter ''MERtoPPP'', Remove_par ''MERtoPPP'',
         Transact_exit False]\<rparr>)"
  by (simp add: expand_dims_def issue_def call_kwargs_def isna_any_def make_df_def
      ChainMap_get_def demo_MESSAGE_ITEMS_def demo_MACRO_ITEMS_def demo_world_def
      data_get_def pd_DataFrame_def)

text \<open>
  C9. When a keyword of the caller's new data names a column that the stored data
  already has, forming the call \<^verbatim>\<open>make_df(name, **scenario.par(name), **data)\<close> raises
  \<^verbatim>\<open>TypeError\<close> for such a keyword. \<^verbatim>\<open>make_df\<close> is not entered, nothing is validated, and
  the only call made on the scenario is the read: a stored column cannot be overridden.
\<close>

theorem expand_dims_duplicate_keyword:
  assumes "k \<in> set (columns (par_data w name))" and "k \<in> set (map fst data)"
  shows "\<exists>k'. k' \<in> set (columns (par_data w name)) \<and> k' \<in> set (map fst data) \<and>
     expand_dims MESSAGE_ITEMS MACRO_ITEMS name data w =
       (Inl (TypeError_multiple_values k'), w\<lparr>calls := calls w @ [Par name]\<rparr>)"
proof -
  let ?stored = "map fst (to_dict (Frame (par_data w name)))"
  have keys: "?stored = columns (par_data w name)"
    by (simp add: columns_def case_prod_unfold comp_def)
  from assms have "\<exists>x \<in> set (map fst data). x \<in> set ?stored"
    unfolding keys by blast
  then obtain k' where found: "find (\<lambda>k. k \<in> set ?stored) (map fst data) = Some k'"
    by (cases "find (\<lambda>k. k \<in> set ?stored) (map fst data)") (auto simp: find_None_iff)
  from find_Some_member [OF this]
  have "k' \<in> set (map fst data)" and "k' \<in> set ?stored"
    by blast+
  moreover from found have "call_kwargs (par_data w name) data =
      Inl (TypeError_multiple_values k')"
    by (simp only: call_kwargs_def Let_def option.case)
  ultimately show ?thesis
    unfolding keys by (auto simp: expand_dims_stages)
qed

theorem expand_dims_duplicate_keyword_witness:
  "expand_dims demo_MESSAGE_ITEMS demo_MACRO_ITEMS ''demand''
     [(''time'', Scalar (CStr ''year'')), (''level'', Scalar (CStr ''final''))] demo_world =
   (Inl (TypeError_multiple_values ''level''), demo_world\<lparr>calls := [Par ''demand'']\<rparr>)"
proof -
  let ?data = "[(''time'', Scalar (CStr ''year'')), (''level'', Scalar (CStr ''final''))]"
  have h1: "''level'' \<in> set (columns (par_data demo_world ''demand''))"
    by (simp add: columns_def demo_world_def)
  have h2: "''level'' \<in> set (map fst ?data)" by simp
  from expand_dims_duplicate_keyword [OF h1 h2, of demo_MESSAGE_ITEMS demo_MACRO_ITEMS]
  obtain k' where k': "k' \<in> set (columns (par_data demo_world ''demand''))"
    and d: "k' \<in> set (map fst ?data)"
    and e: "expand_dims demo_MESSAGE_ITEMS demo_MACRO_ITEMS ''demand'' ?data demo_world =
       (Inl (TypeError_multiple_values k'),
        demo_world\<lparr>calls := calls demo_world @ [Par ''demand'']\<rparr>)"
    by blast
  from d have "k' = ''time'' \<or> k' = ''level''" by simp
  moreover from k' have "k' \<noteq> ''time''"
    by (auto simp: columns_def demo_world_def)
  ultimately have "k' = ''level''" by blast
  with e show ?thesis by (simp add: demo_world_def)
qed

text \<open>
  C10 (as amended). For a name that \<^verbatim>\<open>MACRO_ITEMS\<close> has and \<^verbatim>\<open>MESSAGE_ITEMS\<close> has not:
  \<^verbatim>\<open>make_df\<close> resolves it through the combined lookup, to the entry of \<^verbatim>\<open>MACRO_ITEMS\<close>,
  and never raises the "not a MESSAGE or MACRO parameter" error, so the call of
  \<^verbatim>\<open>expand_dims\<close> can get as far as the transaction. The call never returns normally. In
  every call in which the expanded table is built and has no missing cell,
  \<^verbatim>\<open>MESSAGE_ITEMS[name]\<close> raises \<^verbatim>\<open>KeyError\<close> inside the transaction, after \<^verbatim>\<open>remove_par\<close>
  was called and before anything is initialized or added.
\<close>

theorem expand_dims_secondary_only:
  assumes "MESSAGE_ITEMS name = None" and "MACRO_ITEMS name = Some info"
  shows "make_df MESSAGE_ITEMS MACRO_ITEMS (Name name) kwargs w =
           make_df [name \<mapsto> info] Map.empty (Name name) kwargs w
       \<and> fst (make_df MESSAGE_ITEMS MACRO_ITEMS (Name name) kwargs w) \<noteq>
           Inl (ValueError_not_parameter name)
       \<and> fst (expand_dims MESSAGE_ITEMS MACRO_ITEMS name data w) \<noteq> Inr ()
       \<and> (call_kwargs (par_data w name) data = Inr kwargs \<and>
          fst (make_df MESSAGE_ITEMS MACRO_ITEMS (Name name) kwargs w) = Inr new_data \<and>
          \<not> isna_any new_data \<longrightarrow>
          expand_dims MESSAGE_ITEMS MACRO_ITEMS name data w =
            (Inl (KeyError name),
             w\<lparr>calls := calls w @ [Par name, Transact_enter name, Remove_par name,
                                    Transact_exit False]\<rparr>))"
proof -
  from assms have resolve: "ChainMap_get MESSAGE_ITEMS MACRO_ITEMS name = Some info"
    by (simp add: ChainMap_get_def)
  have single: "ChainMap_get [name \<mapsto> info] Map.empty name = Some info"
    by (simp add: ChainMap_get_def)
  from resolve single
  have 1: "make_df MESSAGE_ITEMS MACRO_ITEMS (Name name) kwargs w =
      make_df [name \<mapsto> info] Map.empty (Name name) kwargs w"
    by (simp add: make_df_def)
  from resolve
  have 2: "fst (make_df MESSAGE_ITEMS MACRO_ITEMS (Name name) kwargs w) \<noteq>
      Inl (ValueError_not_parameter name)"
    by (simp add: make_df_def Let_def pd_DataFrame_def
        split: option.splits prod.splits list.splits)
  from assms(1)
  have 3: "fst (expand_dims MESSAGE_ITEMS MACRO_ITEMS name data w) \<noteq> Inr ()"
    by (simp add: expand_dims_stages split: sum.splits)
  from assms(1)
  have 4: "call_kwargs (par_data w name) data = Inr kwargs \<and>
      fst (make_df MESSAGE_ITEMS MACRO_ITEMS (Name name) kwargs w) = Inr new_data \<and>
      \<not> isna_any new_data \<longrightarrow>
      expand_dims MESSAGE_ITEMS MACRO_ITEMS name data w =
        (Inl (KeyError name),
         w\<lparr>calls := calls w @ [Par name, Transact_enter name, Remove_par name,
                                Transact_exit False]\<rparr>)"
    by (simp add: expand_dims_stages)
  from 1 2 3 4 show ?thesis by (intro conjI)
qed

theorem expand_dims_secondary_only_witness:
  "make_df demo_MESSAGE_ITEMS demo_MACRO_ITEMS (Name ''MERtoPPP'')
      [(''node'', Sequence [CStr ''Westeros'']),
       (''year'', Sequence [CInt 680]),
       (''value'', Sequence [CFloat 1]),
       (''unit'', Sequence [CStr ''-''])] demo_world =
    make_df [''MERtoPPP'' \<mapsto>
        \<lparr>ix_type = ''par'', idx_sets = Some [''node'', ''year''], idx_names = None\<rparr>]
      Map.empty (Name ''MERtoPPP'')
      [(''node'', Sequence [CStr ''Westeros'']),
       (''year'', Sequence [CInt 680]),
       (''value'', Sequence [CFloat 1]),
       (''unit'', Sequence [CStr ''-''])] demo_world
   \<and> expand_dims demo_MESSAGE_ITEMS demo_MACRO_ITEMS ''MERtoPPP'' [] demo_world =
     (Inl (KeyError ''MERtoPPP''),
      demo_world\<lparr>calls :=
        [Par ''MERtoPPP'', Transact_enter ''MERtoPPP'', Remove_par ''MERtoPPP'',
         Transact_exit False]\<rparr>)"
proof -
  let ?info = "\<lparr>ix_type = ''par'', idx_sets = Some [''node'', ''year''], idx_names = None\<rparr>"
  let ?kwargs = "[(''node'', Sequence [CStr ''Westeros'']),
           (''year'', Sequence [CInt 680]),
           (''value'', Sequence [CFloat 1]),
           (''unit'', Sequence [CStr ''-''])]"
  let ?new_data = "\<lparr>index = [0],
          series = [(''node'', [CStr ''Westeros'']),
                    (''year'', [CInt 680]),
                    (''value'', [CFloat 1]),
                    (''unit'', [CStr ''-''])]\<rparr>"
  have h1: "demo_MESSAGE_ITEMS ''MERtoPPP'' = None"
    by (simp add: demo_MESSAGE_ITEMS_def)
  have h2: "demo_MACRO_ITEMS ''MERtoPPP'' = Some ?info"
    by (simp add: demo_MACRO_ITEMS_def)
  have h3: "call_kwargs (par_data demo_world ''MERtoPPP'') [] = Inr ?kwargs"
    by (simp add: call_kwargs_def demo_world_def)
  have h4: "fst (make_df demo_MESSAGE_ITEMS demo_MACRO_ITEMS (Name ''MERtoPPP'') ?kwargs
      demo_world) = Inr ?new_data"
    by (simp add: make_df_def ChainMap_get_def demo_MESSAGE_ITEMS_def demo_MACRO_ITEMS_def
        data_get_def pd_DataFrame_def)
  have h5: "\<not> isna_any ?new_data"
    by (simp add: isna_any_def)
  note inst = expand_dims_secondary_only [where MESSAGE_ITEMS = demo_MESSAGE_ITEMS
      and MACRO_ITEMS = demo_MACRO_ITEMS and name = "''MERtoPPP''" and info = ?info
      and data = "[]" and w = demo_world and kwargs = ?kwargs and new_data = ?new_data,
      OF h1 h2]
  note a = conjunct1 [OF inst]
  from conjunct2 [OF conjunct2 [OF conjunct2 [OF inst]]] h3 h4 h5
  have b: "expand_dims demo_MESSAGE_ITEMS demo_MACRO_ITEMS ''MERtoPPP'' [] demo_world =
     (Inl (KeyError ''MERtoPPP''),
      demo_world\<lparr>calls := calls demo_world @
        [Par ''MERtoPPP'', Transact_enter ''MERtoPPP'', Remove_par ''MERtoPPP'',
         Transact_exit False]\<rparr>)"
    by blast
  then have b': "expand_dims demo_MESSAGE_ITEMS demo_MACRO_ITEMS ''MERtoPPP'' [] demo_world =
     (Inl (KeyError ''MERtoPPP''),
      demo_world\<lparr>calls :=
        [Par ''MERtoPPP'', Transact_enter ''MERtoPPP'', Remove_par ''MERtoPPP'',
         Transact_exit False]\<rparr>)"
    by (simp add: demo_world_def)
  from a b' show ?thesis by (intro conjI)
qed

text \<open>
  C10 as stated has augmentation and validation succeed in every call with such a name.
  Here the name is in \<^verbatim>\<open>MACRO_ITEMS\<close> only and the stored data have no column \<^verbatim>\<open>year\<close>:
  the expanded table has a missing cell, the assertion of line 226 fails, and no
  \<^verbatim>\<open>KeyError\<close> is raised; the transaction is never entered.
\<close>

theorem expand_dims_secondary_only_counterexample:
  "demo_MESSAGE_ITEMS ''MERtoPPP'' = None
   \<and> demo_MACRO_ITEMS ''MERtoPPP'' =
       Some \<lparr>ix_type = ''par'', idx_sets = Some [''node'', ''year''], idx_names = None\<rparr>
   \<and> expand_dims demo_MESSAGE_ITEMS demo_MACRO_ITEMS ''MERtoPPP'' []
       (demo_world\<lparr>par_data := (\<lambda>n.
          \<lparr>index = [0],
           series = [(''node'', [CStr ''Westeros'']),
                     (''value'', [CFloat 1]),
                     (''unit'', [CStr ''-''])]\<rparr>)\<rparr>) =
     (Inl (AssertionError ''Expanded data are incomplete''),
      demo_world\<lparr>par_data := (\<lambda>n.
          \<lparr>index = [0],
           series = [(''node'', [CStr ''Westeros'']),
                     (''value'', [CFloat 1]),
                     (''unit'', [CStr ''-''])]\<rparr>),
        calls := [Par ''MERtoPPP'']\<rparr>)"
  by (simp add: expand_dims_def issue_def call_kwargs_def isna_any_def make_df_def
      ChainMap_get_def demo_MESSAGE_ITEMS_def demo_MACRO_ITEMS_def demo_world_def
      data_get_def pd_DataFrame_def)

end
